theory Spec2Isabelle
  imports Main "HOL-Library.Sublist"
begin

section \<open>The code runner of app.py\<close>

text \<open>
  The repository is one Flask handler, \<open>run_code\<close> (route \<open>/run\<close>), which validates the
  submitted source, stages it in a temporary directory, runs it in a docker container
  and turns the outcome of the docker process into a JSON response. The handler is
  embedded as a function from the parsed request body and the state of the host to the
  response and the new state of the host. Everything the handler receives from outside
  (random names, the behaviour of the external process) is a field of \<open>env\<close>.

  A Python \<open>str\<close> is a \<open>string\<close> with one list element for each character, so that
  \<open>length\<close> is Python's \<open>len\<close>.
\<close>

subsection \<open>JSON values\<close>

datatype json =
    JNull
  | JBool bool
  | JInt int
  | JStr string
  | JArr "json list"
  | JObj "(string \<times> json) list"

text \<open>
  A JSON number is an integer here; the handler treats a float as it treats an integer
  (by its truth value and as a value that is not a string).

  Python's truth value of a parsed JSON value, as used by \<open>request.get_json() or {}\<close>.
\<close>

fun truthy :: "json \<Rightarrow> bool" where
  "truthy JNull = False"
| "truthy (JBool b) = b"
| "truthy (JInt i) = (i \<noteq> 0)"
| "truthy (JStr s) = (s \<noteq> [])"
| "truthy (JArr xs) = (xs \<noteq> [])"
| "truthy (JObj kvs) = (kvs \<noteq> [])"

datatype exn =
    AttributeError
  | FileExistsError
  | FileNotFoundError
  | IsADirectoryError
  | OSError
  | UnicodeDecodeError

text \<open>\<open>data.get(key, default)\<close>: only a dict has the method.\<close>

fun dict_get :: "json \<Rightarrow> string \<Rightarrow> json \<Rightarrow> exn + json" where
  "dict_get (JObj kvs) k d = Inr (case map_of kvs k of None \<Rightarrow> d | Some v \<Rightarrow> v)"
| "dict_get _ k d = Inl AttributeError"

subsection \<open>Module constants (lines 10 to 14, and line 91)\<close>

definition MAX_CHARS :: nat where
  "MAX_CHARS = 5000"

definition DOCKER_IMAGE :: string where
  "DOCKER_IMAGE = ''python:3.11-slim''"

definition TIMEOUT_SECONDS :: nat where
  "TIMEOUT_SECONDS = 10"

definition MEMORY_LIMIT :: string where
  "MEMORY_LIMIT = ''128m''"

definition READ_ONLY :: bool where
  "READ_ONLY = True"

definition MAX_OUTPUT :: nat where
  "MAX_OUTPUT = 10000"

text \<open>\<open>str(n)\<close> of a natural number, for the f-strings and \<open>str(TIMEOUT_SECONDS)\<close>.\<close>

definition digit_char :: "nat \<Rightarrow> char" where
  "digit_char d = ''0123456789'' ! d"

function str_nat :: "nat \<Rightarrow> string" where
  "str_nat n = (if n < 10 then [digit_char n] else str_nat (n div 10) @ [digit_char (n mod 10)])"
  by pat_completeness auto
termination
  by (relation "measure id") auto

declare str_nat.simps [simp del]

subsection \<open>The host: file system, containers, processes started\<close>

record launch =
  argv :: "string list"
  timeout :: nat

record CompletedProcess =
  returncode :: int
  stdout :: string
  stderr :: string

text \<open>
  How \<open>subprocess.run\<close> ends: it returns a \<open>CompletedProcess\<close>, raises
  \<open>TimeoutExpired\<close> after killing the child process it started (the docker client), or
  raises another exception (the executable cannot be started, the output does not
  decode).
\<close>

datatype run_outcome =
    Returned CompletedProcess
  | TimeoutExpired
  | Raised exn

text \<open>
  \<open>dirs\<close> are the directories that exist, \<open>files\<close> the files with their content,
  \<open>containers\<close> the command lines of the sandbox containers that are running and
  \<open>launched\<close> the log of the calls of \<open>subprocess.run\<close>, oldest first.
\<close>

record world =
  dirs :: "string list"
  files :: "(string \<times> string) list"
  containers :: "string list list"
  launched :: "launch list"

text \<open>
  \<open>uuid4\<close> is the text of the random UUID, \<open>gettempdir\<close> the directory of temporary
  files, \<open>candidate_names\<close> the random names \<open>tempfile\<close> draws, in order, and \<open>docker\<close>
  the external process: what the call of \<open>subprocess.run\<close> does to the host (files
  written through the writable mount, containers left behind) and how it ends.
\<close>

record env =
  uuid4 :: string
  gettempdir :: string
  candidate_names :: "string list"
  docker :: "launch \<Rightarrow> world \<Rightarrow> run_outcome \<times> world"

definition exists_path :: "world \<Rightarrow> string \<Rightarrow> bool" where
  "exists_path w p = (p \<in> set (dirs w) \<or> p \<in> set (map fst (files w)))"

text \<open>\<open>os.path.join\<close> of two components (posixpath).\<close>

definition path_join :: "string \<Rightarrow> string \<Rightarrow> string" where
  "path_join a b =
     (if prefix ''/'' b then b
      else if a = [] \<or> last a = CHR ''/'' then a @ b
      else a @ ''/'' @ b)"

text \<open>
  \<open>tempfile.mkdtemp(prefix=pre)\<close>: the first candidate name whose path is free is
  made; a taken name is skipped; with no name left it raises \<open>FileExistsError\<close>.
  \<open>os.mkdir\<close> raises \<open>FileNotFoundError\<close> when the parent directory is missing.
\<close>

fun mkdtemp_names :: "string \<Rightarrow> string \<Rightarrow> string list \<Rightarrow> world \<Rightarrow> exn + (string \<times> world)" where
  "mkdtemp_names dir pre [] w = Inl FileExistsError"
| "mkdtemp_names dir pre (n # ns) w =
     (let p = path_join dir (pre @ n)
      in if exists_path w p then mkdtemp_names dir pre ns w
         else Inr (p, w\<lparr>dirs := p # dirs w\<rparr>))"

definition mkdtemp :: "env \<Rightarrow> string \<Rightarrow> world \<Rightarrow> exn + (string \<times> world)" where
  "mkdtemp e pre w =
     (if gettempdir e \<notin> set (dirs w) then Inl FileNotFoundError
      else mkdtemp_names (gettempdir e) pre (candidate_names e) w)"

text \<open>\<open>with open(path, "w") as f: f.write(content)\<close>: creates or replaces the file.\<close>

definition open_write :: "string \<Rightarrow> string \<Rightarrow> world \<Rightarrow> exn + world" where
  "open_write path content w =
     (if path \<in> set (dirs w) then Inl IsADirectoryError
      else Inr (w\<lparr>files := (path, content) # filter (\<lambda>(p, c). p \<noteq> path) (files w)\<rparr>))"

definition os_remove :: "string \<Rightarrow> world \<Rightarrow> exn + world" where
  "os_remove path w =
     (if path \<in> set (dirs w) then Inl IsADirectoryError
      else if path \<notin> set (map fst (files w)) then Inl FileNotFoundError
      else Inr (w\<lparr>files := filter (\<lambda>(p, c). p \<noteq> path) (files w)\<rparr>))"

text \<open>\<open>os.rmdir\<close> removes an empty directory only.\<close>

definition dir_entries :: "world \<Rightarrow> string \<Rightarrow> string list" where
  "dir_entries w d = filter (prefix (path_join d [])) (map fst (files w) @ dirs w)"

definition os_rmdir :: "string \<Rightarrow> world \<Rightarrow> exn + world" where
  "os_rmdir d w =
     (if d \<notin> set (dirs w) then Inl FileNotFoundError
      else if dir_entries w d \<noteq> [] then Inl OSError
      else Inr (w\<lparr>dirs := removeAll d (dirs w)\<rparr>))"

text \<open>
  \<open>subprocess.run(cmd, capture_output=True, text=True, timeout=t)\<close>: the call is
  logged, the external process acts on the host and decides the outcome. The log is
  the handler's own, so whatever the process does to the host leaves it alone.
\<close>

definition subprocess_run :: "env \<Rightarrow> launch \<Rightarrow> world \<Rightarrow> run_outcome \<times> world" where
  "subprocess_run e l w =
     (case docker e l w of (r, w') \<Rightarrow> (r, w'\<lparr>launched := launched w @ [l]\<rparr>))"

subsection \<open>The handler \<open>run_code\<close>\<close>

text \<open>Lines 49 to 68: the command line of the container.\<close>

definition container_tmp :: string where
  "container_tmp = ''/tmp_exec''"

definition docker_cmd :: "string \<Rightarrow> string \<Rightarrow> string list" where
  "docker_cmd workdir script_path =
     [''docker'', ''run'', ''--rm'',
      ''--network'', ''none'',
      ''--memory'', MEMORY_LIMIT,
      ''--pids-limit'', ''64'',
      ''--cpus'', ''0.5'']
     @ (if READ_ONLY then [''--read-only''] else [])
     @ [''-v'', script_path @ '':/app/script.py:ro'',
        ''-v'', workdir @ '':/app/writable'']
     @ [DOCKER_IMAGE, ''timeout'', str_nat TIMEOUT_SECONDS, ''python'', ''-u'', ''/app/script.py'']"

text \<open>\<open>jsonify({"error": msg})\<close>.\<close>

definition error_json :: "string \<Rightarrow> json" where
  "error_json msg = JObj [(''error'', JStr msg)]"

text \<open>Lines 80 and 88: the same response on both timeout paths.\<close>

definition timeout_response :: "json \<times> nat" where
  "timeout_response =
     (error_json (''Execution timed out after '' @ str_nat TIMEOUT_SECONDS @ '' seconds.''), 200)"

definition truncation_marker :: string where
  "truncation_marker = [CHR 0x0A] @ ''... (truncated)'' @ [CHR 0x0A]"

text \<open>Lines 92 to 95: the same statement for \<open>stdout\<close> and for \<open>stderr\<close>.\<close>

definition cap_output :: "string \<Rightarrow> string" where
  "cap_output s = (if length s > MAX_OUTPUT then take MAX_OUTPUT s @ truncation_marker else s)"

text \<open>Lines 98 to 102.\<close>

definition resp :: "string \<Rightarrow> string \<Rightarrow> int \<Rightarrow> json" where
  "resp out err return_code =
     JObj [(''stdout'', JStr out), (''stderr'', JStr err), (''exit_code'', JInt return_code)]"

text \<open>
  Lines 105 to 109: both removals are in one \<open>try\<close>, whose handler swallows the
  exception, so a failing \<open>os.remove\<close> skips \<open>os.rmdir\<close>.
\<close>

definition cleanup :: "string \<Rightarrow> string \<Rightarrow> world \<Rightarrow> world" where
  "cleanup script_path workdir w =
     (case os_remove script_path w of
        Inl e \<Rightarrow> w
      | Inr w1 \<Rightarrow> (case os_rmdir workdir w1 of Inl e \<Rightarrow> w1 | Inr w2 \<Rightarrow> w2))"

text \<open>
  Lines 82 to 111, after \<open>subprocess.run\<close> has returned. With \<open>capture_output\<close> and
  \<open>text\<close> both streams are strings, on which \<open>s or ""\<close> is \<open>s\<close>.
\<close>

definition normalize :: "string \<Rightarrow> string \<Rightarrow> CompletedProcess \<Rightarrow> world \<Rightarrow> (exn + json \<times> nat) \<times> world" where
  "normalize script_path workdir proc w =
     (if returncode proc = 124 \<or> sublist ''Command terminated'' (stderr proc)
      then (Inr timeout_response, w)
      else (Inr (resp (cap_output (stdout proc)) (cap_output (stderr proc)) (returncode proc), 200),
            cleanup script_path workdir w))"

text \<open>
  Lines 35 to 39: the workspace. The result is the directory and the path of the
  script, or the exception that leaves the handler, with the host as it is then.
\<close>

definition create_workspace :: "env \<Rightarrow> string \<Rightarrow> world \<Rightarrow> (exn + string \<times> string) \<times> world" where
  "create_workspace e code w =
     (let run_id = take 8 (uuid4 e)
      in case mkdtemp e (''exec_'' @ run_id @ ''_'') w of
           Inl x \<Rightarrow> (Inl x, w)
         | Inr (workdir, w1) \<Rightarrow>
             (let script_path = path_join workdir ''script.py''
              in case open_write script_path code w1 of
                   Inl x \<Rightarrow> (Inl x, w1)
                 | Inr w2 \<Rightarrow> (Inr (workdir, script_path), w2)))"

text \<open>
  Lines 34 to 111: what the handler does with a source text that passed the checks.
  An exception that no \<open>except\<close> clause catches leaves the handler (\<open>Inl\<close>).
\<close>

definition execute :: "env \<Rightarrow> string \<Rightarrow> world \<Rightarrow> (exn + json \<times> nat) \<times> world" where
  "execute e code w =
     (case create_workspace e code w of
        (Inl x, w1) \<Rightarrow> (Inl x, w1)
      | (Inr (workdir, script_path), w2) \<Rightarrow>
          (case subprocess_run e
                  \<lparr>argv = docker_cmd workdir script_path,
                   timeout = TIMEOUT_SECONDS + 2\<rparr> w2 of
             (TimeoutExpired, w3) \<Rightarrow> (Inr timeout_response, w3)
           | (Raised x, w3) \<Rightarrow> (Inl x, w3)
           | (Returned proc, w3) \<Rightarrow> normalize script_path workdir proc w3))"

text \<open>
  Lines 22 to 32, then the rest. \<open>body\<close> is what \<open>request.get_json()\<close> returned.
\<close>

definition get_data :: "json option \<Rightarrow> json" where
  "get_data body = (case body of None \<Rightarrow> JObj [] | Some j \<Rightarrow> if truthy j then j else JObj [])"

definition run_code :: "env \<Rightarrow> json option \<Rightarrow> world \<Rightarrow> (exn + json \<times> nat) \<times> world" where
  "run_code e body w =
     (case dict_get (get_data body) ''code'' (JStr '''') of
        Inl x \<Rightarrow> (Inl x, w)
      | Inr (JStr code) \<Rightarrow>
          if length code = 0 then (Inr (error_json ''No code provided.'', 400), w)
          else if length code > MAX_CHARS
          then (Inr (error_json (''Code too long. Max '' @ str_nat MAX_CHARS @ '' characters allowed.''), 400), w)
          else execute e code w
      | Inr other \<Rightarrow> (Inr (error_json ''Field 'code' must be a string.'', 400), w))"

text \<open>
  The status the client sees: Flask answers an exception that leaves the handler with
  500 Internal Server Error.
\<close>

definition http_status :: "exn + json \<times> nat \<Rightarrow> nat" where
  "http_status r = (case r of Inl x \<Rightarrow> 500 | Inr (b, st) \<Rightarrow> st)"

subsection \<open>A concrete host and request\<close>

text \<open>
  A host with an empty temporary directory, fixed random names, a request body with a
  \<open>code\<close> field, and two external processes: \<open>ends_with r\<close> leaves the host alone and
  ends as \<open>r\<close>; \<open>left_running\<close> has started the container, which is still running
  when \<open>subprocess.run\<close> gives up after the outer timeout.
\<close>

definition example_world :: world where
  "example_world = \<lparr>dirs = [''/tmp''], files = [], containers = [], launched = []\<rparr>"

definition example_env :: "(launch \<Rightarrow> world \<Rightarrow> run_outcome \<times> world) \<Rightarrow> env" where
  "example_env d =
     \<lparr>uuid4 = ''0123abcd-89ab-4cde-8f01-23456789abcd'', gettempdir = ''/tmp'',
      candidate_names = [''k3j2h1g0''], docker = d\<rparr>"

definition example_body :: "string \<Rightarrow> json option" where
  "example_body code = Some (JObj [(''code'', JStr code)])"

definition ends_with :: "run_outcome \<Rightarrow> launch \<Rightarrow> world \<Rightarrow> run_outcome \<times> world" where
  "ends_with r l w = (r, w)"

definition left_running :: "launch \<Rightarrow> world \<Rightarrow> run_outcome \<times> world" where
  "left_running l w = (TimeoutExpired, w\<lparr>containers := argv l # containers w\<rparr>)"

text \<open>
  What the docker client process yields when it cannot reach the daemon: it exits with
  its own status 125 and writes its own message to stderr; no container has run.
\<close>

definition docker_daemon_down :: CompletedProcess where
  "docker_daemon_down =
     \<lparr>returncode = 125, stdout = [],
      stderr = ''docker: Cannot connect to the Docker daemon. Is the docker daemon running?''\<rparr>"

subsection \<open>The result shape of the specification\<close>

text \<open>
  Written from the specification, to compare the responses of \<open>run_code\<close> with it: an
  object with the three fields \<open>stdout\<close> (a string), \<open>stderr\<close> (a string) and
  \<open>exit_code\<close> (an integer or null), and no other field.
\<close>

fun is_execution_result :: "json \<Rightarrow> bool" where
  "is_execution_result (JObj kvs) =
     (length kvs = 3
      \<and> (case map_of kvs ''stdout'' of Some (JStr s) \<Rightarrow> True | _ \<Rightarrow> False)
      \<and> (case map_of kvs ''stderr'' of Some (JStr s) \<Rightarrow> True | _ \<Rightarrow> False)
      \<and> (case map_of kvs ''exit_code'' of Some (JInt i) \<Rightarrow> True | Some JNull \<Rightarrow> True | _ \<Rightarrow> False))"
| "is_execution_result _ = False"

section \<open>Properties\<close>

subsection \<open>Auxiliary facts\<close>

lemma str_nat_timeout: "str_nat TIMEOUT_SECONDS = ''10''"
  by (simp add: TIMEOUT_SECONDS_def str_nat.simps digit_char_def)


lemma run_code_accepted:
  assumes "map_of kvs ''code'' = Some (JStr code)"
    and "0 < length code" and "length code \<le> MAX_CHARS"
  shows "run_code e (Some (JObj kvs)) w = execute e code w"
  using assms by (cases kvs) (auto simp: run_code_def get_data_def)

lemma mkdtemp_names_world:
  "mkdtemp_names dir pre ns w = Inr (p, w1) \<Longrightarrow> w1 = w\<lparr>dirs := p # dirs w\<rparr>"
  by (induction ns) (auto simp: Let_def split: if_splits)

lemma mkdtemp_world:
  "mkdtemp e pre w = Inr (p, w1) \<Longrightarrow> w1 = w\<lparr>dirs := p # dirs w\<rparr>"
  by (auto simp: mkdtemp_def split: if_splits dest: mkdtemp_names_world)

lemma create_workspace_cases:
  assumes "create_workspace e code w = (Inr (workdir, script_path), w2)"
  shows "mkdtemp e (''exec_'' @ take 8 (uuid4 e) @ ''_'') w = Inr (workdir, w\<lparr>dirs := workdir # dirs w\<rparr>)
       \<and> script_path = path_join workdir ''script.py''
       \<and> script_path \<notin> set (workdir # dirs w)
       \<and> w2 = w\<lparr>dirs := workdir # dirs w,
                 files := (script_path, code) # filter (\<lambda>(p, c). p \<noteq> script_path) (files w)\<rparr>"
proof (cases "mkdtemp e (''exec_'' @ take 8 (uuid4 e) @ ''_'') w")
  case (Inl x)
  with assms show ?thesis by (simp add: create_workspace_def)
next
  case (Inr pw)
  obtain p w1 where pw: "pw = (p, w1)" by (cases pw)
  from Inr pw have w1: "w1 = w\<lparr>dirs := p # dirs w\<rparr>" by (simp add: mkdtemp_world)
  from assms Inr pw w1 show ?thesis
    by (auto simp: create_workspace_def open_write_def Let_def split: if_splits)
qed

lemma create_workspace_any_code:
  assumes "create_workspace e code w = (Inr (workdir, script_path), w2)"
  shows "fst (create_workspace e code' w) = Inr (workdir, script_path)"
proof -
  from create_workspace_cases [OF assms]
  have m: "mkdtemp e (''exec_'' @ take 8 (uuid4 e) @ ''_'') w = Inr (workdir, w\<lparr>dirs := workdir # dirs w\<rparr>)"
    and s: "script_path = path_join workdir ''script.py''"
    and n: "script_path \<notin> set (workdir # dirs w)" by blast+
  from n have n': "path_join workdir ''script.py'' \<notin> set (workdir # dirs w)"
    unfolding s .
  from m n' show ?thesis
    by (simp add: create_workspace_def open_write_def Let_def s)
qed

lemma subprocess_run_eq:
  "docker e l w = (r, w3) \<Longrightarrow> subprocess_run e l w = (r, w3\<lparr>launched := launched w @ [l]\<rparr>)"
  by (simp add: subprocess_run_def)

lemma execute_created:
  assumes "create_workspace e code w = (Inr (workdir, script_path), w2)"
    and "docker e \<lparr>argv = docker_cmd workdir script_path, timeout = TIMEOUT_SECONDS + 2\<rparr> w2 = (r, w3)"
  shows "execute e code w =
     (case r of
        TimeoutExpired \<Rightarrow>
          (Inr timeout_response,
           w3\<lparr>launched := launched w2 @ [\<lparr>argv = docker_cmd workdir script_path, timeout = TIMEOUT_SECONDS + 2\<rparr>]\<rparr>)
      | Raised x \<Rightarrow>
          (Inl x,
           w3\<lparr>launched := launched w2 @ [\<lparr>argv = docker_cmd workdir script_path, timeout = TIMEOUT_SECONDS + 2\<rparr>]\<rparr>)
      | Returned proc \<Rightarrow>
          normalize script_path workdir proc
           (w3\<lparr>launched := launched w2 @ [\<lparr>argv = docker_cmd workdir script_path, timeout = TIMEOUT_SECONDS + 2\<rparr>]\<rparr>))"
  using assms by (simp add: execute_def subprocess_run_eq split: run_outcome.splits)

lemma cleanup_launched: "launched (cleanup sp wd w) = launched w"
  by (simp add: cleanup_def os_remove_def os_rmdir_def split: sum.splits)

lemma launched_normalize: "launched (snd (normalize sp wd proc w)) = launched w"
  by (simp add: normalize_def cleanup_launched)

lemma launched_execute:
  assumes "create_workspace e code w = (Inr (workdir, script_path), w2)"
  shows "launched (snd (execute e code w)) =
         launched w @ [\<lparr>argv = docker_cmd workdir script_path, timeout = TIMEOUT_SECONDS + 2\<rparr>]"
proof -
  obtain r w3 where d: "docker e \<lparr>argv = docker_cmd workdir script_path, timeout = TIMEOUT_SECONDS + 2\<rparr> w2 = (r, w3)"
    by (cases "docker e \<lparr>argv = docker_cmd workdir script_path, timeout = TIMEOUT_SECONDS + 2\<rparr> w2")
  from create_workspace_cases [OF assms] have l: "launched w2 = launched w" by simp
  show ?thesis
    by (cases r) (simp_all add: execute_created [OF assms d] launched_normalize l)
qed

lemma docker_cmd_explicit:
  "docker_cmd workdir script_path =
     [''docker'', ''run'', ''--rm'', ''--network'', ''none'', ''--memory'', ''128m'',
      ''--pids-limit'', ''64'', ''--cpus'', ''0.5'', ''--read-only'',
      ''-v'', script_path @ '':/app/script.py:ro'', ''-v'', workdir @ '':/app/writable'',
      ''python:3.11-slim'', ''timeout'', ''10'', ''python'', ''-u'', ''/app/script.py'']"
  by (simp add: docker_cmd_def MEMORY_LIMIT_def READ_ONLY_def DOCKER_IMAGE_def str_nat_timeout)

lemma timeout_response_explicit:
  "timeout_response = (JObj [(''error'', JStr ''Execution timed out after 10 seconds.'')], 200)"
  by (simp add: timeout_response_def error_json_def str_nat_timeout)

lemma example_workspace:
  "create_workspace (example_env d) code example_world =
     (Inr (''/tmp/exec_0123abcd_k3j2h1g0'', ''/tmp/exec_0123abcd_k3j2h1g0/script.py''),
      \<lparr>dirs = [''/tmp/exec_0123abcd_k3j2h1g0'', ''/tmp''],
       files = [(''/tmp/exec_0123abcd_k3j2h1g0/script.py'', code)],
       containers = [], launched = []\<rparr>)"
  by (simp add: create_workspace_def example_env_def example_world_def mkdtemp_def
      exists_path_def path_join_def open_write_def Let_def)

subsection \<open>The claims\<close>

text \<open>
  C8: the handler passes \<open>TIMEOUT_SECONDS + 2 = 12\<close> seconds to \<open>subprocess.run\<close> as the
  outer timeout and \<open>TIMEOUT_SECONDS = 10\<close> seconds to the \<open>timeout\<close> wrapper inside the
  container, so the outer timeout is strictly greater than the inner one, by a margin
  of 2 seconds.
\<close>

theorem outer_timeout_exceeds_inner:
  assumes "map_of kvs ''code'' = Some (JStr code)"
    and "0 < length code" and "length code \<le> MAX_CHARS"
    and "create_workspace e code w = (Inr (workdir, script_path), w2)"
  shows "timeout (last (launched (snd (run_code e (Some (JObj kvs)) w)))) = TIMEOUT_SECONDS + 2
       \<and> drop 17 (argv (last (launched (snd (run_code e (Some (JObj kvs)) w)))))
           = [''timeout'', str_nat TIMEOUT_SECONDS, ''python'', ''-u'', ''/app/script.py'']
       \<and> str_nat TIMEOUT_SECONDS = ''10''
       \<and> TIMEOUT_SECONDS = 10
       \<and> TIMEOUT_SECONDS + 2 = 12
       \<and> TIMEOUT_SECONDS < TIMEOUT_SECONDS + 2"
proof -
  have "launched (snd (run_code e (Some (JObj kvs)) w)) =
        launched w @ [\<lparr>argv = docker_cmd workdir script_path, timeout = TIMEOUT_SECONDS + 2\<rparr>]"
    using assms by (simp add: run_code_accepted launched_execute)
  then show ?thesis
    by (simp add: docker_cmd_explicit str_nat_timeout) (simp add: TIMEOUT_SECONDS_def)
qed

theorem outer_timeout_exceeds_inner_witness:
  "timeout (last (launched (snd (run_code (example_env (ends_with TimeoutExpired))
       (Some (JObj [(''code'', JStr ''while True: pass'')])) example_world)))) = 12
   \<and> drop 17 (argv (last (launched (snd (run_code (example_env (ends_with TimeoutExpired))
       (Some (JObj [(''code'', JStr ''while True: pass'')])) example_world)))))
       = [''timeout'', ''10'', ''python'', ''-u'', ''/app/script.py'']"
proof -
  have a: "map_of [(''code'', JStr ''while True: pass'')] ''code'' = Some (JStr ''while True: pass'')"
    by simp
  have b: "0 < length ''while True: pass''" by simp
  have c: "length ''while True: pass'' \<le> MAX_CHARS" by (simp add: MAX_CHARS_def)
  show ?thesis
    using outer_timeout_exceeds_inner [OF a b c example_workspace, of "ends_with TimeoutExpired"]
    by simp
qed

text \<open>
  C2: for an accepted request whose workspace was created, every timeout, that is
  \<open>subprocess.run\<close> raising \<open>TimeoutExpired\<close>, the exit code 124, or the text
  "Command terminated" on stderr, is answered with status 200 and the message
  "Execution timed out after 10 seconds.", which cites \<open>TIMEOUT_SECONDS\<close>; the handler
  returns a response, no exception leaves it.
\<close>

theorem timeout_reported_as_success:
  assumes "map_of kvs ''code'' = Some (JStr code)"
    and "0 < length code" and "length code \<le> MAX_CHARS"
    and "create_workspace e code w = (Inr (workdir, script_path), w2)"
    and "docker e \<lparr>argv = docker_cmd workdir script_path, timeout = TIMEOUT_SECONDS + 2\<rparr> w2 = (r, w3)"
    and "r = TimeoutExpired
         \<or> (\<exists>proc. r = Returned proc
               \<and> (returncode proc = 124 \<or> sublist ''Command terminated'' (stderr proc)))"
  shows "fst (run_code e (Some (JObj kvs)) w) =
           Inr (JObj [(''error'',
                       JStr (''Execution timed out after '' @ str_nat TIMEOUT_SECONDS @ '' seconds.''))],
                200)
       \<and> str_nat TIMEOUT_SECONDS = ''10''
       \<and> http_status (fst (run_code e (Some (JObj kvs)) w)) = 200"
proof -
  have x: "run_code e (Some (JObj kvs)) w = execute e code w"
    using assms(1-3) by (rule run_code_accepted)
  have "fst (execute e code w) = Inr timeout_response"
    using assms(6) by (auto simp: execute_created [OF assms(4,5)] normalize_def)
  then show ?thesis
    by (simp add: x timeout_response_def error_json_def http_status_def str_nat_timeout)
qed

theorem timeout_reported_as_success_witness:
  "fst (run_code (example_env (ends_with TimeoutExpired)) (example_body ''while True: pass'')
          example_world)
     = Inr (JObj [(''error'', JStr ''Execution timed out after 10 seconds.'')], 200)
   \<and> fst (run_code (example_env (ends_with (Returned \<lparr>returncode = 124, stdout = ''tick'', stderr = []\<rparr>)))
          (example_body ''while True: pass'') example_world)
     = Inr (JObj [(''error'', JStr ''Execution timed out after 10 seconds.'')], 200)
   \<and> fst (run_code
          (example_env (ends_with (Returned \<lparr>returncode = 137, stdout = [],
                                              stderr = ''Command terminated''\<rparr>)))
          (example_body ''while True: pass'') example_world)
     = Inr (JObj [(''error'', JStr ''Execution timed out after 10 seconds.'')], 200)"
proof -
  let ?code = "''while True: pass''"
  have a: "map_of [(''code'', JStr ?code)] ''code'' = Some (JStr ?code)" by simp
  have b: "0 < length ?code" by simp
  have c: "length ?code \<le> MAX_CHARS" by (simp add: MAX_CHARS_def)
  have d1: "docker (example_env (ends_with TimeoutExpired)) l w2 = (TimeoutExpired, w2)" for l w2
    by (simp add: example_env_def ends_with_def)
  have d2: "docker (example_env (ends_with (Returned p))) l w2 = (Returned p, w2)" for p l w2
    by (simp add: example_env_def ends_with_def)
  have t1: "TimeoutExpired = TimeoutExpired
         \<or> (\<exists>proc. TimeoutExpired = Returned proc
               \<and> (returncode proc = 124 \<or> sublist ''Command terminated'' (stderr proc)))"
    by simp
  have t2: "Returned \<lparr>returncode = 124, stdout = ''tick'', stderr = []\<rparr> = TimeoutExpired
         \<or> (\<exists>proc. Returned \<lparr>returncode = 124, stdout = ''tick'', stderr = []\<rparr> = Returned proc
               \<and> (returncode proc = 124 \<or> sublist ''Command terminated'' (stderr proc)))"
    by simp
  have t3: "Returned \<lparr>returncode = 137, stdout = [], stderr = ''Command terminated''\<rparr> = TimeoutExpired
         \<or> (\<exists>proc. Returned \<lparr>returncode = 137, stdout = [], stderr = ''Command terminated''\<rparr> = Returned proc
               \<and> (returncode proc = 124 \<or> sublist ''Command terminated'' (stderr proc)))"
    by simp
  show ?thesis
    using timeout_reported_as_success [OF a b c example_workspace d1 t1]
      timeout_reported_as_success [OF a b c example_workspace d2 t2]
      timeout_reported_as_success [OF a b c example_workspace d2 t3]
    by (simp add: example_body_def)
qed

text \<open>
  C10: the classification looks at the exit code and at stderr only. Whenever the
  captured stderr contains "Command terminated", the response of an accepted request
  is the timeout message with status 200, whatever the exit code (0 included) and
  the captured stdout are: none of stdout, stderr and exit status is in the response.
\<close>

theorem stderr_text_classified_as_timeout:
  assumes "map_of kvs ''code'' = Some (JStr code)"
    and "0 < length code" and "length code \<le> MAX_CHARS"
    and "create_workspace e code w = (Inr (workdir, script_path), w2)"
    and "docker e \<lparr>argv = docker_cmd workdir script_path, timeout = TIMEOUT_SECONDS + 2\<rparr> w2
           = (Returned proc, w3)"
    and "sublist ''Command terminated'' (stderr proc)"
  shows "fst (run_code e (Some (JObj kvs)) w) =
           Inr (JObj [(''error'', JStr ''Execution timed out after 10 seconds.'')], 200)"
proof -
  have "run_code e (Some (JObj kvs)) w = execute e code w"
    using assms(1-3) by (rule run_code_accepted)
  then show ?thesis
    using assms(6)
    by (simp add: execute_created [OF assms(4,5)] normalize_def timeout_response_explicit)
qed

theorem stderr_text_classified_as_timeout_witness:
  "fst (run_code
          (example_env (ends_with (Returned \<lparr>returncode = 0, stdout = ''done'',
                                              stderr = ''Command terminated''\<rparr>)))
          (example_body ''import sys'') example_world)
     = Inr (JObj [(''error'', JStr ''Execution timed out after 10 seconds.'')], 200)"
proof -
  let ?code = "''import sys''"
  let ?p = "\<lparr>returncode = 0, stdout = ''done'', stderr = ''Command terminated''\<rparr>"
  have a: "map_of [(''code'', JStr ?code)] ''code'' = Some (JStr ?code)" by simp
  have b: "0 < length ?code" by simp
  have c: "length ?code \<le> MAX_CHARS" by (simp add: MAX_CHARS_def)
  have d: "docker (example_env (ends_with (Returned ?p))) l w2 = (Returned ?p, w2)" for l w2
    by (simp add: example_env_def ends_with_def)
  have s: "sublist ''Command terminated'' (stderr ?p)" by simp
  show ?thesis
    using stderr_text_classified_as_timeout [OF a b c example_workspace d s]
    by (simp add: example_body_def)
qed







text \<open>
  C7: for an accepted request the command line started is the fixed list below:
  \<open>--rm\<close>, \<open>--network none\<close>, \<open>--memory 128m\<close>, \<open>--pids-limit 64\<close>, \<open>--cpus 0.5\<close>,
  \<open>--read-only\<close>, the script mounted read-only at \<open>/app/script.py\<close> and the workspace
  mounted at \<open>/app/writable\<close>. Only the two host paths vary, and they come from the
  random names, not from the source text: any other accepted source text, on the same
  host with the same random names, starts the same command line.
\<close>

theorem hardening_flags_fixed:
  assumes "map_of kvs ''code'' = Some (JStr code)"
    and "0 < length code" and "length code \<le> MAX_CHARS"
    and "create_workspace e code w = (Inr (workdir, script_path), w2)"
  shows "launched (snd (run_code e (Some (JObj kvs)) w)) =
           launched w @
           [\<lparr>argv = [''docker'', ''run'', ''--rm'', ''--network'', ''none'',
                     ''--memory'', ''128m'', ''--pids-limit'', ''64'', ''--cpus'', ''0.5'',
                     ''--read-only'',
                     ''-v'', script_path @ '':/app/script.py:ro'',
                     ''-v'', workdir @ '':/app/writable'',
                     ''python:3.11-slim'', ''timeout'', ''10'', ''python'', ''-u'',
                     ''/app/script.py''],
             timeout = 12\<rparr>]
       \<and> (\<forall>kvs' code'.
             map_of kvs' ''code'' = Some (JStr code') \<and> 0 < length code'
             \<and> length code' \<le> MAX_CHARS
             \<longrightarrow> launched (snd (run_code e (Some (JObj kvs')) w))
                 = launched (snd (run_code e (Some (JObj kvs)) w)))"
proof -
  have l: "launched (snd (run_code e (Some (JObj kvs)) w)) =
        launched w @ [\<lparr>argv = docker_cmd workdir script_path, timeout = TIMEOUT_SECONDS + 2\<rparr>]"
    using assms by (simp add: run_code_accepted launched_execute)
  have "launched (snd (run_code e (Some (JObj kvs')) w))
          = launched (snd (run_code e (Some (JObj kvs)) w))"
    if h: "map_of kvs' ''code'' = Some (JStr code')" "0 < length code'" "length code' \<le> MAX_CHARS"
    for kvs' code'
  proof -
    obtain w2' where "create_workspace e code' w = (Inr (workdir, script_path), w2')"
      using create_workspace_any_code [OF assms(4), of code']
      by (cases "create_workspace e code' w") simp
    then have "launched (snd (run_code e (Some (JObj kvs')) w)) =
        launched w @ [\<lparr>argv = docker_cmd workdir script_path, timeout = TIMEOUT_SECONDS + 2\<rparr>]"
      using h by (simp add: run_code_accepted launched_execute)
    with l show ?thesis by simp
  qed
  with l show ?thesis
    by (simp add: docker_cmd_explicit TIMEOUT_SECONDS_def)
qed

theorem hardening_flags_fixed_witness:
  "launched (snd (run_code (example_env (ends_with TimeoutExpired))
                    (example_body ''import os'') example_world)) =
     [\<lparr>argv = [''docker'', ''run'', ''--rm'', ''--network'', ''none'',
               ''--memory'', ''128m'', ''--pids-limit'', ''64'', ''--cpus'', ''0.5'',
               ''--read-only'',
               ''-v'', ''/tmp/exec_0123abcd_k3j2h1g0/script.py:/app/script.py:ro'',
               ''-v'', ''/tmp/exec_0123abcd_k3j2h1g0:/app/writable'',
               ''python:3.11-slim'', ''timeout'', ''10'', ''python'', ''-u'',
               ''/app/script.py''],
       timeout = 12\<rparr>]
   \<and> launched (snd (run_code (example_env (ends_with TimeoutExpired))
                    (example_body ''--privileged'') example_world))
     = launched (snd (run_code (example_env (ends_with TimeoutExpired))
                    (example_body ''import os'') example_world))"
proof -
  let ?code = "''import os''"
  let ?other = "''--privileged''"
  have a: "map_of [(''code'', JStr ?code)] ''code'' = Some (JStr ?code)" by simp
  have b: "0 < length ?code" by simp
  have c: "length ?code \<le> MAX_CHARS" by (simp add: MAX_CHARS_def)
  have o: "map_of [(''code'', JStr ?other)] ''code'' = Some (JStr ?other) \<and> 0 < length ?other
       \<and> length ?other \<le> MAX_CHARS"
    by (simp add: MAX_CHARS_def)
  from hardening_flags_fixed [OF a b c example_workspace, of "ends_with TimeoutExpired"] o
  show ?thesis
    by (simp add: example_body_def example_world_def)
qed

text \<open>
  C6, as the code has it: on a run that is not classified as a timeout the response is
  the object with \<open>stdout\<close>, \<open>stderr\<close> (each capped) and \<open>exit_code\<close> (the exit status as
  it is), which has the result shape; on a timeout, outer or inner, the response is
  the object with the single field \<open>error\<close>, which does not have that shape.
\<close>

theorem response_shape:
  assumes "map_of kvs ''code'' = Some (JStr code)"
    and "0 < length code" and "length code \<le> MAX_CHARS"
    and "create_workspace e code w = (Inr (workdir, script_path), w2)"
    and "docker e \<lparr>argv = docker_cmd workdir script_path, timeout = TIMEOUT_SECONDS + 2\<rparr> w2 = (r, w3)"
  shows "(\<forall>proc. r = Returned proc \<and> returncode proc \<noteq> 124
              \<and> \<not> sublist ''Command terminated'' (stderr proc)
            \<longrightarrow> fst (run_code e (Some (JObj kvs)) w) =
                  Inr (JObj [(''stdout'', JStr (cap_output (stdout proc))),
                             (''stderr'', JStr (cap_output (stderr proc))),
                             (''exit_code'', JInt (returncode proc))], 200)
                \<and> is_execution_result
                    (JObj [(''stdout'', JStr (cap_output (stdout proc))),
                           (''stderr'', JStr (cap_output (stderr proc))),
                           (''exit_code'', JInt (returncode proc))]))
       \<and> (r = TimeoutExpired
            \<or> (\<exists>proc. r = Returned proc
                  \<and> (returncode proc = 124 \<or> sublist ''Command terminated'' (stderr proc)))
            \<longrightarrow> fst (run_code e (Some (JObj kvs)) w) =
                  Inr (JObj [(''error'', JStr ''Execution timed out after 10 seconds.'')], 200)
                \<and> \<not> is_execution_result
                    (JObj [(''error'', JStr ''Execution timed out after 10 seconds.'')]))"
proof -
  have x: "run_code e (Some (JObj kvs)) w = execute e code w"
    using assms(1-3) by (rule run_code_accepted)
  have n: "fst (execute e code w) =
             Inr (JObj [(''stdout'', JStr (cap_output (stdout proc))),
                        (''stderr'', JStr (cap_output (stderr proc))),
                        (''exit_code'', JInt (returncode proc))], 200)"
    if "r = Returned proc" "returncode proc \<noteq> 124" "\<not> sublist ''Command terminated'' (stderr proc)"
    for proc
    using that by (simp add: execute_created [OF assms(4,5)] normalize_def resp_def)
  have t: "fst (execute e code w) =
             Inr (JObj [(''error'', JStr ''Execution timed out after 10 seconds.'')], 200)"
    if "r = TimeoutExpired
        \<or> (\<exists>proc. r = Returned proc
              \<and> (returncode proc = 124 \<or> sublist ''Command terminated'' (stderr proc)))"
    using that
    by (auto simp: execute_created [OF assms(4,5)] normalize_def timeout_response_explicit)
  from n t show ?thesis by (simp add: x)
qed

theorem response_shape_witness:
  "fst (run_code (example_env (ends_with (Returned \<lparr>returncode = 0, stdout = ''hi'', stderr = []\<rparr>)))
          (example_body ''print(1)'') example_world)
     = Inr (JObj [(''stdout'', JStr ''hi''), (''stderr'', JStr []), (''exit_code'', JInt 0)], 200)
   \<and> is_execution_result
        (JObj [(''stdout'', JStr ''hi''), (''stderr'', JStr []), (''exit_code'', JInt 0)])
   \<and> fst (run_code (example_env (ends_with TimeoutExpired)) (example_body ''print(1)'')
          example_world)
     = Inr (JObj [(''error'', JStr ''Execution timed out after 10 seconds.'')], 200)"
proof -
  let ?code = "''print(1)''"
  let ?p = "\<lparr>returncode = 0, stdout = ''hi'', stderr = []\<rparr>"
  have a: "map_of [(''code'', JStr ?code)] ''code'' = Some (JStr ?code)" by simp
  have b: "0 < length ?code" by simp
  have c: "length ?code \<le> MAX_CHARS" by (simp add: MAX_CHARS_def)
  have d1: "docker (example_env (ends_with (Returned ?p))) l w2 = (Returned ?p, w2)" for l w2
    by (simp add: example_env_def ends_with_def)
  have d2: "docker (example_env (ends_with TimeoutExpired)) l w2 = (TimeoutExpired, w2)" for l w2
    by (simp add: example_env_def ends_with_def)
  have k: "cap_output ''hi'' = ''hi''" "cap_output [] = []"
    by (simp_all add: cap_output_def MAX_OUTPUT_def)
  from response_shape [OF a b c example_workspace d1] response_shape [OF a b c example_workspace d2] k
  show ?thesis
    by (simp add: example_body_def)
qed

text \<open>
  C6 as stated fails on the timeout paths: the response to a run that hits the outer
  timeout has no \<open>stdout\<close>, \<open>stderr\<close> or \<open>exit_code\<close> field.
\<close>

theorem timeout_response_not_result_shape:
  "fst (run_code (example_env (ends_with TimeoutExpired)) (example_body ''while True: pass'')
          example_world)
     = Inr (JObj [(''error'', JStr ''Execution timed out after 10 seconds.'')], 200)
   \<and> \<not> is_execution_result (JObj [(''error'', JStr ''Execution timed out after 10 seconds.'')])"
proof -
  have "run_code (example_env (ends_with TimeoutExpired)) (example_body ''while True: pass'')
          example_world
        = execute (example_env (ends_with TimeoutExpired)) ''while True: pass'' example_world"
    unfolding example_body_def by (rule run_code_accepted) (simp_all add: MAX_CHARS_def)
  moreover have "docker (example_env (ends_with TimeoutExpired)) l w2 = (TimeoutExpired, w2)" for l w2
    by (simp add: example_env_def ends_with_def)
  ultimately show ?thesis
    by (simp add: execute_created [OF example_workspace] timeout_response_explicit)
qed

text \<open>
  C5, as the code has it: an exception of \<open>subprocess.run\<close> other than \<open>TimeoutExpired\<close>
  (the docker executable cannot be started) leaves the handler, so the caller gets
  500 and not the timeout response; whenever \<open>subprocess.run\<close> returns, the status is
  200 and the response is decided by exit code, stdout and stderr alone, whoever
  wrote them.
\<close>

theorem launch_failure_surfacing:
  assumes "map_of kvs ''code'' = Some (JStr code)"
    and "0 < length code" and "length code \<le> MAX_CHARS"
    and "create_workspace e code w = (Inr (workdir, script_path), w2)"
    and "docker e \<lparr>argv = docker_cmd workdir script_path, timeout = TIMEOUT_SECONDS + 2\<rparr> w2 = (r, w3)"
  shows "(\<forall>x. r = Raised x
            \<longrightarrow> fst (run_code e (Some (JObj kvs)) w) = Inl x
                \<and> http_status (fst (run_code e (Some (JObj kvs)) w)) = 500)
       \<and> (\<forall>proc. r = Returned proc
            \<longrightarrow> fst (run_code e (Some (JObj kvs)) w) =
                  (if returncode proc = 124 \<or> sublist ''Command terminated'' (stderr proc)
                   then Inr (JObj [(''error'', JStr ''Execution timed out after 10 seconds.'')], 200)
                   else Inr (JObj [(''stdout'', JStr (cap_output (stdout proc))),
                                   (''stderr'', JStr (cap_output (stderr proc))),
                                   (''exit_code'', JInt (returncode proc))], 200))
                \<and> http_status (fst (run_code e (Some (JObj kvs)) w)) = 200)"
proof -
  have x: "run_code e (Some (JObj kvs)) w = execute e code w"
    using assms(1-3) by (rule run_code_accepted)
  show ?thesis
    by (simp add: x execute_created [OF assms(4,5)] normalize_def resp_def
        timeout_response_explicit http_status_def)
qed

theorem launch_failure_surfacing_witness:
  "fst (run_code (example_env (ends_with (Raised FileNotFoundError))) (example_body ''print(1)'')
          example_world) = Inl FileNotFoundError
   \<and> http_status (fst (run_code (example_env (ends_with (Raised FileNotFoundError)))
          (example_body ''print(1)'') example_world)) = 500"
proof -
  let ?code = "''print(1)''"
  have a: "map_of [(''code'', JStr ?code)] ''code'' = Some (JStr ?code)" by simp
  have b: "0 < length ?code" by simp
  have c: "length ?code \<le> MAX_CHARS" by (simp add: MAX_CHARS_def)
  have d: "docker (example_env (ends_with (Raised FileNotFoundError))) l w2
             = (Raised FileNotFoundError, w2)" for l w2
    by (simp add: example_env_def ends_with_def)
  from launch_failure_surfacing [OF a b c example_workspace d]
  show ?thesis
    by (simp add: example_body_def http_status_def)
qed

text \<open>
  C5 as stated fails when the docker client itself reports the failure: with the
  daemon unreachable the caller gets status 200 and the normal result object, with
  docker's message in \<open>stderr\<close> and docker's status 125 in \<open>exit_code\<close>, exactly as for
  a submitted program that wrote this text and exited with 125.
\<close>

theorem daemon_down_reported_as_program_result:
  "fst (run_code (example_env (ends_with (Returned docker_daemon_down))) (example_body ''print(1)'')
          example_world)
     = Inr (JObj [(''stdout'', JStr []),
                  (''stderr'', JStr ''docker: Cannot connect to the Docker daemon. Is the docker daemon running?''),
                  (''exit_code'', JInt 125)], 200)
   \<and> \<not> 500 \<le> http_status (fst (run_code (example_env (ends_with (Returned docker_daemon_down)))
          (example_body ''print(1)'') example_world))"
proof -
  have x: "run_code (example_env (ends_with (Returned docker_daemon_down))) (example_body ''print(1)'')
          example_world
        = execute (example_env (ends_with (Returned docker_daemon_down))) ''print(1)'' example_world"
    unfolding example_body_def by (rule run_code_accepted) (simp_all add: MAX_CHARS_def)
  have d: "docker (example_env (ends_with (Returned docker_daemon_down))) l w2
             = (Returned docker_daemon_down, w2)" for l w2
    by (simp add: example_env_def ends_with_def)
  have s: "\<not> sublist ''Command terminated'' (stderr docker_daemon_down)"
    by (simp add: docker_daemon_down_def sublist_Cons_right)
  have r: "returncode docker_daemon_down = 125" "stdout docker_daemon_down = []"
    "stderr docker_daemon_down = ''docker: Cannot connect to the Docker daemon. Is the docker daemon running?''"
    by (simp_all add: docker_daemon_down_def)
  have k: "cap_output [] = []"
    "cap_output ''docker: Cannot connect to the Docker daemon. Is the docker daemon running?''
       = ''docker: Cannot connect to the Docker daemon. Is the docker daemon running?''"
    by (simp_all add: cap_output_def MAX_OUTPUT_def)
  have "fst (execute (example_env (ends_with (Returned docker_daemon_down))) ''print(1)'' example_world)
     = Inr (JObj [(''stdout'', JStr []),
                  (''stderr'', JStr ''docker: Cannot connect to the Docker daemon. Is the docker daemon running?''),
                  (''exit_code'', JInt 125)], 200)"
    using s by (simp add: execute_created [OF example_workspace d] normalize_def resp_def r k)
  then show ?thesis
    by (simp add: x http_status_def)
qed

text \<open>
  C1 on the code: after the outer timeout, and after a run with exit code 124, the
  workspace directory and the script are still on the host when the handler has
  returned (lines 80 and 88 return before the cleanup of lines 105 to 109); after a
  normal run that left the workspace alone both are gone.
\<close>

theorem workspace_left_behind_on_timeout:
  "dirs (snd (run_code (example_env (ends_with TimeoutExpired))
                (example_body ''while True: pass'') example_world))
     = [''/tmp/exec_0123abcd_k3j2h1g0'', ''/tmp'']
   \<and> files (snd (run_code (example_env (ends_with TimeoutExpired))
                (example_body ''while True: pass'') example_world))
     = [(''/tmp/exec_0123abcd_k3j2h1g0/script.py'', ''while True: pass'')]
   \<and> dirs (snd (run_code
                (example_env (ends_with (Returned \<lparr>returncode = 124, stdout = [], stderr = []\<rparr>)))
                (example_body ''while True: pass'') example_world))
     = [''/tmp/exec_0123abcd_k3j2h1g0'', ''/tmp'']
   \<and> files (snd (run_code
                (example_env (ends_with (Returned \<lparr>returncode = 124, stdout = [], stderr = []\<rparr>)))
                (example_body ''while True: pass'') example_world))
     = [(''/tmp/exec_0123abcd_k3j2h1g0/script.py'', ''while True: pass'')]
   \<and> dirs (snd (run_code
                (example_env (ends_with (Returned \<lparr>returncode = 0, stdout = ''hi'', stderr = []\<rparr>)))
                (example_body ''print(1)'') example_world))
     = [''/tmp'']
   \<and> files (snd (run_code
                (example_env (ends_with (Returned \<lparr>returncode = 0, stdout = ''hi'', stderr = []\<rparr>)))
                (example_body ''print(1)'') example_world))
     = []"
proof -
  have x: "run_code e (example_body ''while True: pass'') example_world
        = execute e ''while True: pass'' example_world" for e
    unfolding example_body_def by (rule run_code_accepted) (simp_all add: MAX_CHARS_def)
  have y: "run_code e (example_body ''print(1)'') example_world
        = execute e ''print(1)'' example_world" for e
    unfolding example_body_def by (rule run_code_accepted) (simp_all add: MAX_CHARS_def)
  have d: "docker (example_env (ends_with r)) l w2 = (r, w2)" for r l w2
    by (simp add: example_env_def ends_with_def)
  show ?thesis
    by (simp add: x y execute_created [OF example_workspace d] normalize_def cleanup_def
        os_remove_def os_rmdir_def dir_entries_def path_join_def)
qed

text \<open>
  C3 on the code: when \<open>subprocess.run\<close> gives up with \<open>TimeoutExpired\<close> while the
  container it started is still running, the handler returns the timeout message and
  does nothing about the container (line 80 follows the comment of line 79 at once):
  it is still running when the handler has returned.
\<close>

theorem container_left_running_on_outer_timeout:
  "fst (run_code (example_env left_running) (example_body ''while True: pass'') example_world)
     = Inr (JObj [(''error'', JStr ''Execution timed out after 10 seconds.'')], 200)
   \<and> containers (snd (run_code (example_env left_running) (example_body ''while True: pass'')
                        example_world))
     = [[''docker'', ''run'', ''--rm'', ''--network'', ''none'',
         ''--memory'', ''128m'', ''--pids-limit'', ''64'', ''--cpus'', ''0.5'',
         ''--read-only'',
         ''-v'', ''/tmp/exec_0123abcd_k3j2h1g0/script.py:/app/script.py:ro'',
         ''-v'', ''/tmp/exec_0123abcd_k3j2h1g0:/app/writable'',
         ''python:3.11-slim'', ''timeout'', ''10'', ''python'', ''-u'', ''/app/script.py'']]"
proof -
  have x: "run_code (example_env left_running) (example_body ''while True: pass'') example_world
        = execute (example_env left_running) ''while True: pass'' example_world"
    unfolding example_body_def by (rule run_code_accepted) (simp_all add: MAX_CHARS_def)
  have d: "docker (example_env left_running) l w2
             = (TimeoutExpired, w2\<lparr>containers := argv l # containers w2\<rparr>)" for l w2
    by (simp add: example_env_def left_running_def)
  show ?thesis
    by (simp add: x execute_created [OF example_workspace d] timeout_response_explicit
        docker_cmd_explicit)
qed

end
